theory Spec2Isabelle
  imports Main
begin

section \<open>Python values, exceptions and process outcomes\<close>

text \<open>
  The only Python values whose dynamic type matters in \<^verbatim>\<open>checkpy.py\<close> are the
  ones that reach \<^verbatim>\<open>keystr.split(',')\<close>: a \<^verbatim>\<open>bool\<close> (what an argparse
  \<^verbatim>\<open>store_true\<close> action stores) or a \<^verbatim>\<open>str\<close>.
\<close>

datatype pyval = PyBool bool | PyStr string

datatype pyexc = AttributeError | KeyError

text \<open>A process ends through \<^verbatim>\<open>sys.exit(n)\<close> or through an exception nobody caught.\<close>

datatype outcome = Exit int | Uncaught pyexc

section \<open>Strings\<close>

definition nl :: string where
  "nl = [CHR 0x0A]"

definition tab :: string where
  "tab = [CHR 0x09]"

definition dquote :: string where
  "dquote = [CHR 0x22]"

text \<open>\<^verbatim>\<open>s.endswith(suffix)\<close>\<close>

definition endswith :: "string \<Rightarrow> string \<Rightarrow> bool" where
  "endswith s suffix = (take (length suffix) (rev s) = rev suffix)"

text \<open>\<^verbatim>\<open>sep.join(xs)\<close>\<close>

fun join :: "string \<Rightarrow> string list \<Rightarrow> string" where
  "join s [] = []"
| "join s [x] = x"
| "join s (x # y # ys) = x @ s @ join s (y # ys)"

text \<open>
  \<^verbatim>\<open>s.split(c)\<close> for a one-character separator: never the empty list, and
  \<^verbatim>\<open>''.split(',')\<close> is \<^verbatim>\<open>['']\<close>.
\<close>

fun split_on :: "char \<Rightarrow> string \<Rightarrow> string list" where
  "split_on c [] = [[]]"
| "split_on c (x # xs) =
     (if x = c then [] # split_on c xs
      else (case split_on c xs of
              [] \<Rightarrow> [[x]]
            | w # ws \<Rightarrow> (x # w) # ws))"

text \<open>
  \<^verbatim>\<open>str.isspace\<close> on one character, for the code points below 256 that Python 3
  counts as whitespace; \<^verbatim>\<open>s.strip()\<close> drops them from both ends.
\<close>

definition isspace :: "char \<Rightarrow> bool" where
  "isspace c = ((of_char c :: nat) \<in> set [9, 10, 11, 12, 13, 28, 29, 30, 31, 32, 133, 160])"

definition strip :: "string \<Rightarrow> string" where
  "strip s = rev (dropWhile isspace (rev (dropWhile isspace s)))"

text \<open>Truthiness, and \<^verbatim>\<open>v.split(',')\<close> on a value: \<^verbatim>\<open>bool\<close> has no such attribute.\<close>

fun truthy :: "pyval \<Rightarrow> bool" where
  "truthy (PyBool b) = b"
| "truthy (PyStr s) = (s \<noteq> [])"

fun py_split :: "pyval \<Rightarrow> char \<Rightarrow> pyexc + string list" where
  "py_split (PyBool b) c = Inl AttributeError"
| "py_split (PyStr s) c = Inr (split_on c s)"

section \<open>The warning registry\<close>

text \<open>
  A \<^verbatim>\<open>dict\<close> from warning code to description, in insertion order. The keys of a
  dictionary are unique: \<open>distinct (keys d)\<close> is the invariant of the type.
\<close>

type_synonym registry = "(string \<times> string) list"

definition keys :: "registry \<Rightarrow> string list" where
  "keys d = map fst d"

text \<open>\<^verbatim>\<open>d[k]\<close> and \<^verbatim>\<open>d.pop(k)\<close>: both raise \<^verbatim>\<open>KeyError\<close> on an absent key.\<close>

definition dict_get :: "registry \<Rightarrow> string \<Rightarrow> pyexc + string" where
  "dict_get d k = (case map_of d k of None \<Rightarrow> Inl KeyError | Some v \<Rightarrow> Inr v)"

definition dict_pop :: "registry \<Rightarrow> string \<Rightarrow> pyexc + registry" where
  "dict_pop d k =
     (case map_of d k of
        None \<Rightarrow> Inl KeyError
      | Some v \<Rightarrow> Inr (filter (\<lambda>kv. fst kv \<noteq> k) d))"

definition IGNORE_PEP :: registry where
  "IGNORE_PEP =
     [(''E121'', ''indentation is not a multiple of four''),
      (''E122'', ''missing indentation or outdented''),
      (''E123'', ''closing bracket does not match indentation of'' @ '' opening brackets line''),
      (''E125'', ''continuation line does not distinguish itself'' @ '' from next logical line''),
      (''E126'', ''over-indented for hanging indent''),
      (''E127'', ''over-indented for visual indent''),
      (''E128'', ''continuation line under-indented for visual indent''),
      (''E302'', ''expected 2 blank lines, found %d''),
      (''E501'', ''line too long (%d > %d characters)''),
      (''W391'', ''blank line at end of file'')]"

section \<open>Environment and state\<close>

text \<open>
  What the program reads from outside: the interpreter-dependent name \<^verbatim>\<open>PYLINT\<close>,
  \<^verbatim>\<open>sys.argv[0]\<close>, the path \<^verbatim>\<open>os.path.join(os.path.dirname(__file__), 'pylintrc')\<close>,
  the file system as \<^verbatim>\<open>os.path.isfile\<close>, \<^verbatim>\<open>os.path.isdir\<close> and \<^verbatim>\<open>os.walk\<close>
  answer, the search path as \<^verbatim>\<open>spawn.find_executable\<close> answers, and the exit status
  of each child process: \<open>subprocess_call e n cmd\<close> is the status of the command
  \<open>cmd\<close> when \<open>n\<close> children have been run before it. The last field is the
  help text as \<^verbatim>\<open>argparse\<close> formats it for the parser of \<^verbatim>\<open>main\<close> (usage
  line, \<^verbatim>\<open>USAGE_MSG\<close> as description, the argument sections): its layout depends
  on the version of the library and on the width of the terminal.
\<close>

record env =
  PYLINT :: string
  argv0 :: string
  rcfile :: string
  getcwd :: string
  sep :: string
  isfile :: "string \<Rightarrow> bool"
  isdir :: "string \<Rightarrow> bool"
  walk :: "string \<Rightarrow> (string \<times> string list \<times> string list) list"
  find_executable :: "string \<Rightarrow> string option"
  subprocess_call :: "nat \<Rightarrow> string \<Rightarrow> int"
  format_help :: string

text \<open>
  What the program changes: the module-level registry, the text written to standard
  output (one entry per \<^verbatim>\<open>print\<close> or \<^verbatim>\<open>write\<close>), and the shell commands run.
\<close>

record state =
  ignore_pep :: registry
  out :: "string list"
  calls :: "string list"

definition initial_state :: state where
  "initial_state = \<lparr>ignore_pep = IGNORE_PEP, out = [], calls = []\<rparr>"

text \<open>The namespace \<^verbatim>\<open>parse_args\<close> returns: both flags are \<^verbatim>\<open>store_true\<close> actions.\<close>

record options =
  listpep :: bool
  pepkeylist :: bool
  paths :: "string list"

definition stdout_write :: "string \<Rightarrow> state \<Rightarrow> state" where
  "stdout_write s st = st\<lparr>out := out st @ [s]\<rparr>"

definition py_print :: "string \<Rightarrow> state \<Rightarrow> state" where
  "py_print s st = stdout_write (s @ nl) st"

definition sys_exit :: "int \<Rightarrow> state \<Rightarrow> (outcome + 'a) \<times> state" where
  "sys_exit n st = (Inl (Exit n), st)"

definition call :: "env \<Rightarrow> string \<Rightarrow> state \<Rightarrow> int \<times> state" where
  "call e cmd st = (subprocess_call e (length (calls st)) cmd, st\<lparr>calls := calls st @ [cmd]\<rparr>)"

definition IMPORT_ERROR_MSG :: "env \<Rightarrow> string" where
  "IMPORT_ERROR_MSG e =
     nl @ nl @
     ''    pylint and/or pycodestyle not available'' @ nl @
     ''    Install these packages from:'' @ nl @ nl @
     ''    https://pypi.python.org/pypi/pylint'' @ nl @ nl @ nl @
     ''    Or, if you'' @ [CHR 0x27] @ ''re on a Unix-like platform, try these commands:'' @ nl @ nl @
     ''        sudo apt install pylint'' @ nl @
     ''        sudo apt install pylint3'' @ nl @
     ''        sudo pip install autopep8'' @ nl @
     ''        sudo apt install pycodestyle'' @ nl @ nl @
     ''    And then try running the program: '' @ argv0 e @ '' once again'' @ nl @ nl"

section \<open>The check operation\<close>

text \<open>The two command prefixes of \<^verbatim>\<open>check\<close>.\<close>

definition mypylint :: "env \<Rightarrow> string" where
  "mypylint e =
     (if isfile e (rcfile e) then PYLINT e @ '' --rcfile='' @ dquote @ rcfile e @ dquote
      else PYLINT e @ '' '')"

definition mypycodestyle :: "state \<Rightarrow> string" where
  "mypycodestyle st = ''pycodestyle --ignore='' @ join '','' (keys (ignore_pep st)) @ '' --statistics ''"

text \<open>
  The file list. The three nested loops append to \<^verbatim>\<open>filelist\<close>; each is a
  recursion over what it iterates, with the list built so far as accumulator.
\<close>

fun files_loop :: "env \<Rightarrow> string \<Rightarrow> string list \<Rightarrow> string list \<Rightarrow> string list" where
  "files_loop e dpath [] filelist = filelist"
| "files_loop e dpath (myfile # files) filelist =
     files_loop e dpath files
       (if endswith myfile ''.py'' then filelist @ [dpath @ sep e @ myfile] else filelist)"

fun walk_loop :: "env \<Rightarrow> (string \<times> string list \<times> string list) list \<Rightarrow> string list \<Rightarrow> string list" where
  "walk_loop e [] filelist = filelist"
| "walk_loop e ((dpath, dirs, files) # rest) filelist =
     walk_loop e rest (files_loop e dpath files filelist)"

fun paths_loop :: "env \<Rightarrow> string list \<Rightarrow> string list \<Rightarrow> string list" where
  "paths_loop e [] filelist = filelist"
| "paths_loop e (thisfile # ps) filelist =
     paths_loop e ps
       (if isfile e thisfile \<and> endswith thisfile ''.py'' then filelist @ [thisfile]
        else if isdir e thisfile then walk_loop e (walk e thisfile) filelist
        else filelist)"

definition resolve_filelist :: "env \<Rightarrow> string list option \<Rightarrow> string list" where
  "resolve_filelist e ps =
     (case ps of
        None \<Rightarrow> walk_loop e (walk e (getcwd e)) []
      | Some ps' \<Rightarrow> paths_loop e ps' [])"

text \<open>
  The body of the reporting loop for one file. It receives the counter and starts by
  setting it to 0 again, as the source does.
\<close>

definition check_file :: "env \<Rightarrow> string \<Rightarrow> string \<Rightarrow> string \<Rightarrow> int \<Rightarrow> state \<Rightarrow> int \<times> state" where
  "check_file e pylint_cmd pycodestyle_cmd myfile rescount_in st =
     (let rescount = (0::int);
          st1 = stdout_write (''starting pylint, as '' @ pylint_cmd @ '' '' @ myfile @ nl) st;
          (res, st2) = call e (pylint_cmd @ '' '' @ myfile) st1;
          (result, rescount) = (if res = 0 then (''SUCCESS'', rescount) else (''FAILED'', rescount + 1));
          st3 = stdout_write (''pylint: '' @ result @ nl) st2;
          st4 = stdout_write (''starting pycodestyle, as '' @ pycodestyle_cmd) st3;
          (res, st5) = call e (pycodestyle_cmd @ '' '' @ myfile) st4;
          (result, rescount) = (if res = 0 then (''SUCCESS'', rescount) else (''FAILED'', rescount + 1));
          st6 = stdout_write (''pycodestyle: '' @ result @ nl) st5
      in (rescount, st6))"

fun check_loop :: "env \<Rightarrow> string \<Rightarrow> string \<Rightarrow> string list \<Rightarrow> int \<Rightarrow> state \<Rightarrow> int \<times> state" where
  "check_loop e pylint_cmd pycodestyle_cmd [] rescount st = (rescount, st)"
| "check_loop e pylint_cmd pycodestyle_cmd (myfile # filelist) rescount st =
     (case check_file e pylint_cmd pycodestyle_cmd myfile rescount st of
        (rescount', st') \<Rightarrow> check_loop e pylint_cmd pycodestyle_cmd filelist rescount' st')"

text \<open>
  The number of tools that fail on one file: \<open>n\<close> children have been run before
  the file's static-analysis command, whose style-check command comes next.
\<close>

definition failure_count :: "env \<Rightarrow> string \<Rightarrow> string \<Rightarrow> nat \<Rightarrow> string \<Rightarrow> int" where
  "failure_count e pylint_cmd pycodestyle_cmd n myfile =
     (if subprocess_call e n (pylint_cmd @ '' '' @ myfile) = 0 then 0 else 1) +
     (if subprocess_call e (Suc n) (pycodestyle_cmd @ '' '' @ myfile) = 0 then 0 else 1)"

definition check :: "env \<Rightarrow> string list option \<Rightarrow> state \<Rightarrow> int \<times> state" where
  "check e ps st =
     (let pylint_cmd = mypylint e;
          pycodestyle_cmd = mypycodestyle st;
          filelist = resolve_filelist e ps;
          rescount = 0
      in check_loop e pylint_cmd pycodestyle_cmd filelist rescount st)"

section \<open>Listing, removal, sanity check and main\<close>

text \<open>
  \<^verbatim>\<open>list_pep_keys\<close>: a header, one line per key, then \<^verbatim>\<open>sys.exit(0)\<close>. The
  function never returns to its caller.
\<close>

fun list_loop :: "string list \<Rightarrow> state \<Rightarrow> (outcome + unit) \<times> state" where
  "list_loop [] st = (Inr (), st)"
| "list_loop (k # ks) st =
     (case dict_get (ignore_pep st) k of
        Inl ex \<Rightarrow> (Inl (Uncaught ex), st)
      | Inr v \<Rightarrow> list_loop ks (py_print (tab @ k @ '': '' @ v @ nl) st))"

definition list_pep_keys :: "state \<Rightarrow> (outcome + unit) \<times> state" where
  "list_pep_keys st =
     (let st1 = py_print (nl @ tab @ ''These are the PEP Keys that are being ignored:'' @ nl) st
      in case list_loop (keys (ignore_pep st1)) st1 of
           (Inl oc, st2) \<Rightarrow> (Inl oc, st2)
         | (Inr u, st2) \<Rightarrow> sys_exit 0 st2)"

text \<open>\<^verbatim>\<open>check_sanity\<close>\<close>

definition check_sanity :: "env \<Rightarrow> state \<Rightarrow> (outcome + unit) \<times> state" where
  "check_sanity e st =
     (if find_executable e (PYLINT e) = None then sys_exit 1 (py_print (IMPORT_ERROR_MSG e) st)
      else if find_executable e ''pycodestyle'' = None then sys_exit 1 (py_print (IMPORT_ERROR_MSG e) st)
      else (Inr (), st))"

text \<open>
  The removal loop of \<^verbatim>\<open>main\<close>. In the handler, \<^verbatim>\<open>sys.exit(1)\<close> follows the call
  of \<^verbatim>\<open>list_pep_keys\<close> and runs only if that call returns.
\<close>

fun remove_loop :: "string list \<Rightarrow> state \<Rightarrow> (outcome + unit) \<times> state" where
  "remove_loop [] st = (Inr (), st)"
| "remove_loop (k # keylist) st =
     (case dict_pop (ignore_pep st) k of
        Inr d \<Rightarrow>
          remove_loop keylist
            (py_print (''Removing key:'' @ k @ '' from PEP ignore list'' @ nl) (st\<lparr>ignore_pep := d\<rparr>))
      | Inl KeyError \<Rightarrow>
          (case list_pep_keys (py_print (''Error, key '' @ k @ '' not found, these are the keys:'' @ nl) st) of
             (Inl oc, st') \<Rightarrow> (Inl oc, st')
           | (Inr u, st') \<Rightarrow> sys_exit 1 st')
      | Inl ex \<Rightarrow> (Inl (Uncaught ex), st))"

definition remove_keys :: "pyval \<Rightarrow> state \<Rightarrow> (outcome + unit) \<times> state" where
  "remove_keys keystr st =
     (if truthy keystr then
        (case py_split keystr (CHR '','') of
           Inl ex \<Rightarrow> (Inl (Uncaught ex), st)
         | Inr parts \<Rightarrow> remove_loop (map strip parts) st)
      else (Inr (), st))"

text \<open>\<^verbatim>\<open>main\<close>, from the parsed options on.\<close>

definition main :: "env \<Rightarrow> options \<Rightarrow> state \<Rightarrow> outcome \<times> state" where
  "main e opts st =
     (case (if listpep opts then list_pep_keys st else (Inr (), st)) of
        (Inl oc, st1) \<Rightarrow> (oc, st1)
      | (Inr u, st1) \<Rightarrow>
     (case remove_keys (PyBool (pepkeylist opts)) st1 of
        (Inl oc, st2) \<Rightarrow> (oc, st2)
      | (Inr u, st2) \<Rightarrow>
     (case check_sanity e st2 of
        (Inl oc, st3) \<Rightarrow> (oc, st3)
      | (Inr u, st3) \<Rightarrow>
     (case (if length (paths opts) = 0 then check e None st3 else check e (Some (paths opts)) st3) of
        (myrc, st4) \<Rightarrow> (Exit myrc, st4)))))"

section \<open>The command line\<close>

text \<open>
  The parser of \<^verbatim>\<open>main\<close> declares the flags \<^verbatim>\<open>-l/--list\<close> and
  \<^verbatim>\<open>-r/--remove\<close>, both \<^verbatim>\<open>store_true\<close>, and the positional \<^verbatim>\<open>paths\<close>
  with \<^verbatim>\<open>nargs='*'\<close>; \<^verbatim>\<open>ArgumentParser\<close> adds \<^verbatim>\<open>-h/--help\<close>. A command
  line is the list of its arguments, each as the parser classifies it: one of the three
  options, an option string it does not know, or a positional.
\<close>

datatype arg = Opt_help | Opt_list | Opt_remove | Opt_unknown string | Positional string

text \<open>
  \<^verbatim>\<open>parse_args\<close> reads the arguments from left to right. The help option prints
  the help text and exits with status 0 on the spot. A flag sets its field. The first
  run of consecutive positionals becomes \<^verbatim>\<open>paths\<close>; a positional after that run
  is closed, like an unknown option string, is left over, and left-over arguments at
  the end are an error: a message on standard error and exit status 2.
\<close>

datatype phase = Before | During | After

fun close_run :: "phase \<Rightarrow> phase" where
  "close_run During = After"
| "close_run ph = ph"

fun parse_loop ::
  "env \<Rightarrow> arg list \<Rightarrow> options \<Rightarrow> phase \<Rightarrow> string list \<Rightarrow> state \<Rightarrow> (outcome + options) \<times> state" where
  "parse_loop e [] ns ph extras st =
     (if extras = [] then (Inr ns, st) else (Inl (Exit 2), st))"
| "parse_loop e (Opt_help # rest) ns ph extras st =
     (Inl (Exit 0), stdout_write (format_help e) st)"
| "parse_loop e (Opt_list # rest) ns ph extras st =
     parse_loop e rest (ns\<lparr>listpep := True\<rparr>) (close_run ph) extras st"
| "parse_loop e (Opt_remove # rest) ns ph extras st =
     parse_loop e rest (ns\<lparr>pepkeylist := True\<rparr>) (close_run ph) extras st"
| "parse_loop e (Opt_unknown s # rest) ns ph extras st =
     parse_loop e rest ns (close_run ph) (extras @ [s]) st"
| "parse_loop e (Positional p # rest) ns ph extras st =
     (if ph = After then parse_loop e rest ns ph (extras @ [p]) st
      else parse_loop e rest (ns\<lparr>paths := paths ns @ [p]\<rparr>) During extras st)"

definition parse_args :: "env \<Rightarrow> arg list \<Rightarrow> state \<Rightarrow> (outcome + options) \<times> state" where
  "parse_args e argv st =
     parse_loop e argv \<lparr>listpep = False, pepkeylist = False, paths = []\<rparr> Before [] st"

text \<open>The program: \<^verbatim>\<open>main\<close> from the command line on.\<close>

definition run :: "env \<Rightarrow> arg list \<Rightarrow> state \<Rightarrow> outcome \<times> state" where
  "run e argv st =
     (case parse_args e argv st of
        (Inl oc, st') \<Rightarrow> (oc, st')
      | (Inr opts, st') \<Rightarrow> main e opts st')"

text \<open>
  What one candidate path contributes to the file list: itself when it is a file whose
  name ends in \<^verbatim>\<open>.py\<close>, the matching files of every directory that
  \<^verbatim>\<open>os.walk\<close> visits when it is a directory, nothing otherwise.
\<close>

definition candidate_files :: "env \<Rightarrow> string \<Rightarrow> string list" where
  "candidate_files e p =
     (if isfile e p \<and> endswith p ''.py'' then [p]
      else if isdir e p then
        concat (map (\<lambda>(dpath, dirs, files).
                       map (\<lambda>myfile. dpath @ sep e @ myfile)
                           (filter (\<lambda>myfile. endswith myfile ''.py'') files))
                    (walk e p))
      else [])"

section \<open>A concrete environment\<close>

text \<open>
  A small working directory used to run the definitions: three Python files and a text
  file at top level, a package directory with a subdirectory, both tools installed, no
  \<^verbatim>\<open>pylintrc\<close> beside the program. The exit statuses of the children are a
  parameter.
\<close>

text \<open>The help text \<^verbatim>\<open>argparse\<close> 3.11 formats for the parser, at 80 columns.\<close>

definition example_help :: string where
  "example_help =
    ''usage: checkpy.py [-h] [-l] [-r] [paths ...]'' @ nl @
    nl @
    ''    Usage: checkpy.py [-h|--help] [-l] [-r|--remove <pepkeylist>] [<path>]'' @ nl @
    nl @
    ''    -h|--help      : displays this help message'' @ nl @
    ''    -l|--list      : list PEP warnings that are being ignored'' @ nl @
    ''            (and then exits the program without doing'' @ nl @
    ''            anything else)'' @ nl @
    ''    -r|--remove <pepkeylist>  : disable PEP check on this key or key list'' @ nl @
    ''    pepkeylist      : a string of comma-separated list of keys'' @ nl @
    ''            Examples of keylists:'' @ nl @
    ''            E127'' @ nl @
    ''            '' @ dquote @ ''E127'' @ dquote @ nl @
    ''            '' @ dquote @ ''E127,E501'' @ dquote @ nl @
    ''            '' @ dquote @ ''E127, E501'' @ dquote @ nl @
    nl @
    ''    Run without arguments to run a standard check.'' @ nl @
    ''    python checkpy.py'' @ nl @
    nl @
    ''    Run with paths as arguments to check those paths,'' @ nl @
    ''    the paths must be relative to the current working directory'' @ nl @
    ''    python checkpy.py [<path>]'' @ nl @
    ''    '' @ nl @
    nl @
    ''positional arguments:'' @ nl @
    ''  paths'' @ nl @
    nl @
    ''options:'' @ nl @
    ''  -h, --help    show this help message and exit'' @ nl @
    ''  -l, --list'' @ nl @
    ''  -r, --remove'' @ nl"

definition example_env :: "(nat \<Rightarrow> string \<Rightarrow> int) \<Rightarrow> env" where
  "example_env status =
     \<lparr>PYLINT = ''pylint3'',
      argv0 = ''checkpy.py'',
      rcfile = ''pylintrc'',
      getcwd = ''.'',
      sep = ''/'',
      isfile = (\<lambda>p. p \<in> set [''a.py'', ''b.py'', ''c.py'', ''notes.txt'']),
      isdir = (\<lambda>p. p \<in> set [''.'', ''pkg'', ''pkg/sub'']),
      walk = (\<lambda>p.
        if p = ''pkg'' then
          [(''pkg'', [''sub''], [''m.py'', ''README'']), (''pkg/sub'', [], [''n.py''])]
        else if p = ''pkg/sub'' then [(''pkg/sub'', [], [''n.py''])]
        else if p = ''.'' then
          [(''.'', [''pkg''], [''a.py'', ''b.py'', ''c.py'', ''notes.txt'']),
           (''./pkg'', [''sub''], [''m.py'', ''README'']),
           (''./pkg/sub'', [], [''n.py''])]
        else []),
      find_executable = (\<lambda>x. Some (''/usr/bin/'' @ x)),
      subprocess_call = status,
      format_help = example_help\<rparr>"

section \<open>The reporting loop\<close>

lemma check_file_calls:
  "calls (snd (check_file e p c f r st)) = calls st @ [p @ '' '' @ f, c @ '' '' @ f]"
  by (simp add: check_file_def call_def stdout_write_def Let_def split: prod.splits)

lemma check_file_count:
  "fst (check_file e p c f r st) = failure_count e p c (length (calls st)) f"
  by (simp add: check_file_def call_def stdout_write_def failure_count_def Let_def
      split: prod.splits)

lemma check_file_registry:
  "ignore_pep (snd (check_file e p c f r st)) = ignore_pep st"
  by (simp add: check_file_def call_def stdout_write_def Let_def split: prod.splits)

lemma failure_count_range: "failure_count e p c n f \<in> {0, 1, 2}"
  by (simp add: failure_count_def)

text \<open>
  Each pass through the loop forgets the count of the passes before it, so after the
  loop the counter holds the count of the last file alone.
\<close>

lemma check_loop_last:
  "fst (check_loop e p c fl r st) =
     (if fl = [] then r
      else failure_count e p c (length (calls st) + 2 * (length fl - 1)) (last fl))"
proof (induction fl arbitrary: r st)
  case Nil
  show ?case by simp
next
  case (Cons f fl)
  obtain r' st' where cf: "check_file e p c f r st = (r', st')"
    by (cases "check_file e p c f r st")
  have r': "r' = failure_count e p c (length (calls st)) f"
    using check_file_count [of e p c f r st] cf by simp
  have len: "length (calls st') = length (calls st) + 2"
    using check_file_calls [of e p c f r st] cf by simp
  show ?case
  proof (cases "fl = []")
    case True
    then show ?thesis using cf r' by simp
  next
    case False
    then have "length (calls st') + 2 * (length fl - 1) =
        length (calls st) + 2 * (length (f # fl) - 1)"
      using len by (cases fl) simp_all
    then show ?thesis using cf Cons.IH [of r' st'] False by simp
  qed
qed

text \<open>
  C10. The value \<^verbatim>\<open>check\<close> returns is the failure count of the last file of the
  resolved file list only: 0, 1 or 2. For an empty file list it is 0.
\<close>

theorem check_returns_last_file_count:
  "fst (check e ps st) =
     (if resolve_filelist e ps = [] then 0
      else failure_count e (mypylint e) (mypycodestyle st)
             (length (calls st) + 2 * (length (resolve_filelist e ps) - 1))
             (last (resolve_filelist e ps)))
   \<and> fst (check e ps st) \<in> {0, 1, 2}"
proof -
  have eq: "fst (check e ps st) =
     (if resolve_filelist e ps = [] then 0
      else failure_count e (mypylint e) (mypycodestyle st)
             (length (calls st) + 2 * (length (resolve_filelist e ps) - 1))
             (last (resolve_filelist e ps)))"
    by (simp add: check_def Let_def check_loop_last)
  moreover have "fst (check e ps st) \<in> {0, 1, 2}"
    unfolding eq using failure_count_range by simp
  ultimately show ?thesis by blast
qed

text \<open>
  Two files, the style check fails on the second one: the result is that file's count.
  With no candidate that yields a file, the result is 0.
\<close>

theorem check_returns_last_file_count_witness:
  "fst (check (example_env (\<lambda>n cmd. if n = 3 then 1 else 0)) (Some [''a.py'', ''b.py''])
         initial_state) = 1
   \<and> fst (check (example_env (\<lambda>n cmd. 1)) (Some [''notes.txt'']) initial_state) = 0"
  using check_returns_last_file_count
          [of "example_env (\<lambda>n cmd. if n = 3 then 1 else 0)" "Some [''a.py'', ''b.py'']"
              initial_state]
        check_returns_last_file_count
          [of "example_env (\<lambda>n cmd. 1)" "Some [''notes.txt'']" initial_state]
  by (simp add: resolve_filelist_def example_env_def endswith_def failure_count_def
      initial_state_def)

lemma check_loop_calls:
  "calls (snd (check_loop e p c fl r st)) =
     calls st @ concat (map (\<lambda>f. [p @ '' '' @ f, c @ '' '' @ f]) fl)"
proof (induction fl arbitrary: r st)
  case Nil
  show ?case by simp
next
  case (Cons f fl)
  obtain r' st' where cf: "check_file e p c f r st = (r', st')"
    by (cases "check_file e p c f r st")
  have "calls st' = calls st @ [p @ '' '' @ f, c @ '' '' @ f]"
    using check_file_calls [of e p c f r st] cf by simp
  then show ?case using cf Cons.IH [of r' st'] by simp
qed

lemma check_loop_registry:
  "ignore_pep (snd (check_loop e p c fl r st)) = ignore_pep st"
proof (induction fl arbitrary: r st)
  case Nil
  show ?case by simp
next
  case (Cons f fl)
  obtain r' st' where cf: "check_file e p c f r st = (r', st')"
    by (cases "check_file e p c f r st")
  have "ignore_pep st' = ignore_pep st"
    using check_file_registry [of e p c f r st] cf by simp
  then show ?case using cf Cons.IH [of r' st'] by simp
qed

text \<open>
  C9. The style-check command that \<^verbatim>\<open>check\<close> builds is
  \<^verbatim>\<open>pycodestyle --ignore=\<close>, then the keys of the registry as it is when the
  check starts, joined by commas, then \<^verbatim>\<open>--statistics\<close>; and the commands run
  are, file by file, the static-analysis command and this style-check command, each
  followed by the file.
\<close>

theorem style_command_ignores_registry_keys:
  "mypycodestyle st = ''pycodestyle --ignore='' @ join '','' (map fst (ignore_pep st)) @ '' --statistics ''
   \<and> calls (snd (check e ps st)) =
       calls st @
       concat (map (\<lambda>myfile.
                      [mypylint e @ '' '' @ myfile,
                       ''pycodestyle --ignore='' @ join '','' (map fst (ignore_pep st)) @
                       '' --statistics '' @ '' '' @ myfile])
                   (resolve_filelist e ps))"
  by (simp add: check_def Let_def check_loop_calls mypycodestyle_def keys_def)

text \<open>After the codes E501 and W391 have left the registry, the list has the other eight.\<close>

theorem style_command_ignores_registry_keys_witness:
  "calls (snd (check (example_env (\<lambda>n cmd. 0)) (Some [''a.py''])
            (snd (remove_keys (PyStr ''E501,W391'') initial_state)))) =
     [''pylint3  a.py'',
      ''pycodestyle --ignore=E121,E122,E123,E125,E126,E127,E128,E302 --statistics  a.py'']"
  using style_command_ignores_registry_keys
          [of "snd (remove_keys (PyStr ''E501,W391'') initial_state)"
              "example_env (\<lambda>n cmd. 0)" "Some [''a.py'']"]
  by (simp add: resolve_filelist_def example_env_def endswith_def initial_state_def
      remove_keys_def strip_def isspace_def dict_pop_def IGNORE_PEP_def py_print_def
      stdout_write_def mypylint_def)

section \<open>The file list\<close>

lemma files_loop_append:
  "files_loop e dpath files filelist =
     filelist @ map (\<lambda>myfile. dpath @ sep e @ myfile) (filter (\<lambda>myfile. endswith myfile ''.py'') files)"
  by (induction files arbitrary: filelist) simp_all

lemma walk_loop_append:
  "walk_loop e ws filelist =
     filelist @
     concat (map (\<lambda>(dpath, dirs, files).
                    map (\<lambda>myfile. dpath @ sep e @ myfile)
                        (filter (\<lambda>myfile. endswith myfile ''.py'') files)) ws)"
proof (induction ws arbitrary: filelist)
  case Nil
  show ?case by simp
next
  case (Cons w ws)
  obtain dpath dirs files where w: "w = (dpath, dirs, files)"
    by (cases w)
  show ?case
    unfolding w by (simp add: Cons.IH files_loop_append)
qed

lemma paths_loop_append:
  "paths_loop e ps filelist = filelist @ concat (map (candidate_files e) ps)"
proof (induction ps arbitrary: filelist)
  case Nil
  show ?case by simp
next
  case (Cons p ps)
  show ?case
    by (simp add: Cons.IH candidate_files_def walk_loop_append)
qed

text \<open>
  C8. The file list of a list of candidates is the concatenation, in order, of what
  each candidate contributes: itself for a file whose name ends in \<^verbatim>\<open>.py\<close>, the
  matching files of the walk for a directory, nothing otherwise (no error is raised:
  the result is always a list). A candidate that contributes nothing can be left out.
\<close>

theorem candidates_resolved_one_by_one:
  "resolve_filelist e (Some ps) = concat (map (candidate_files e) ps)
   \<and> (isfile e p \<and> endswith p ''.py'' \<longrightarrow> candidate_files e p = [p])
   \<and> (\<not> (isfile e p \<and> endswith p ''.py'') \<and> isdir e p \<longrightarrow>
        candidate_files e p =
          concat (map (\<lambda>(dpath, dirs, files).
                         map (\<lambda>myfile. dpath @ sep e @ myfile)
                             (filter (\<lambda>myfile. endswith myfile ''.py'') files))
                      (walk e p)))
   \<and> (\<not> (isfile e p \<and> endswith p ''.py'') \<and> \<not> isdir e p \<longrightarrow> candidate_files e p = [])
   \<and> (candidate_files e p = [] \<longrightarrow>
        resolve_filelist e (Some (ps @ p # qs)) = resolve_filelist e (Some (ps @ qs)))"
  by (simp add: resolve_filelist_def paths_loop_append candidate_files_def)

text \<open>
  A Python file, a text file, a package directory and a path that does not exist.
\<close>

theorem candidates_resolved_one_by_one_witness:
  "resolve_filelist (example_env (\<lambda>n cmd. 0))
     (Some [''a.py'', ''notes.txt'', ''pkg'', ''nope'', ''a.py'']) =
     [''a.py'', ''pkg/m.py'', ''pkg/sub/n.py'', ''a.py'']
   \<and> candidate_files (example_env (\<lambda>n cmd. 0)) ''a.py'' = [''a.py'']
   \<and> candidate_files (example_env (\<lambda>n cmd. 0)) ''pkg'' = [''pkg/m.py'', ''pkg/sub/n.py'']
   \<and> candidate_files (example_env (\<lambda>n cmd. 0)) ''notes.txt'' = []
   \<and> resolve_filelist (example_env (\<lambda>n cmd. 0)) (Some ([''a.py''] @ ''nope'' # [''b.py''])) =
       resolve_filelist (example_env (\<lambda>n cmd. 0)) (Some ([''a.py''] @ [''b.py'']))"
proof -
  let ?e = "example_env (\<lambda>n cmd. 0)"
  have a: "isfile ?e ''a.py'' \<and> endswith ''a.py'' ''.py''"
    by (simp add: example_env_def endswith_def)
  have pkg: "\<not> (isfile ?e ''pkg'' \<and> endswith ''pkg'' ''.py'') \<and> isdir ?e ''pkg''"
    by (simp add: example_env_def endswith_def)
  have nfile: "\<not> (isfile ?e ''notes.txt'' \<and> endswith ''notes.txt'' ''.py'') \<and> \<not> isdir ?e ''notes.txt''"
    by (simp add: example_env_def endswith_def)
  have nope: "\<not> (isfile ?e ''nope'' \<and> endswith ''nope'' ''.py'') \<and> \<not> isdir ?e ''nope''"
    by (simp add: example_env_def endswith_def)
  note t = candidates_resolved_one_by_one
  have 1: "candidate_files ?e ''a.py'' = [''a.py'']"
    using t [of ?e "[]" "''a.py''" "[]"] a by blast
  have 2: "candidate_files ?e ''pkg'' = [''pkg/m.py'', ''pkg/sub/n.py'']"
    using t [of ?e "[]" "''pkg''" "[]"] pkg by (simp add: example_env_def endswith_def)
  have 3: "candidate_files ?e ''notes.txt'' = []"
    using t [of ?e "[]" "''notes.txt''" "[]"] nfile by blast
  have 4: "candidate_files ?e ''nope'' = []"
    using t [of ?e "[]" "''nope''" "[]"] nope by blast
  have 5: "resolve_filelist ?e (Some [''a.py'', ''notes.txt'', ''pkg'', ''nope'', ''a.py'']) =
     [''a.py'', ''pkg/m.py'', ''pkg/sub/n.py'', ''a.py'']"
    using t [of ?e "[''a.py'', ''notes.txt'', ''pkg'', ''nope'', ''a.py'']" "''a.py''" "[]"] 1 2 3 4
    by simp
  have 6: "resolve_filelist ?e (Some ([''a.py''] @ ''nope'' # [''b.py''])) =
       resolve_filelist ?e (Some ([''a.py''] @ [''b.py'']))"
    using t [of ?e "[''a.py'']" "''nope''" "[''b.py'']"] 4 by blast
  show ?thesis using 1 2 3 5 6 by blast
qed

section \<open>Running the model\<close>

text \<open>
  The defining equations that evaluate a run of the program in the concrete environment.
\<close>

lemmas run_defs =
  main_def remove_keys_def check_sanity_def check_def resolve_filelist_def check_file_def
  call_def stdout_write_def py_print_def sys_exit_def list_pep_keys_def dict_get_def
  dict_pop_def strip_def isspace_def endswith_def keys_def mypylint_def mypycodestyle_def
  example_env_def initial_state_def IGNORE_PEP_def Let_def

text \<open>
  With every child process succeeding, the result is 0, whatever the files are.
\<close>

lemma all_pass_gives_zero:
  "(\<And>n cmd. subprocess_call e n cmd = 0) \<Longrightarrow> fst (check e ps st) = 0"
  by (simp add: check_def Let_def check_loop_last failure_count_def)

text \<open>
  C1, at a failing input. Two files are checked; the static analysis fails on the first
  one and every other child succeeds. The process exits with status 0, although a tool
  failed on a file.
\<close>

theorem earlier_failure_is_forgotten:
  "fst (main (example_env (\<lambda>n cmd. if n = 0 then 1 else 0))
         \<lparr>listpep = False, pepkeylist = False, paths = [''a.py'', ''b.py'']\<rparr> initial_state) = Exit 0
   \<and> calls (snd (main (example_env (\<lambda>n cmd. if n = 0 then 1 else 0))
         \<lparr>listpep = False, pepkeylist = False, paths = [''a.py'', ''b.py'']\<rparr> initial_state)) ! 0 =
       ''pylint3  a.py''
   \<and> subprocess_call (example_env (\<lambda>n cmd. if n = 0 then 1 else 0)) 0 ''pylint3  a.py'' = 1"
  by (simp add: run_defs)

text \<open>
  C2, at a failing input. Three files are checked; exactly one child, the style check of
  the second file, returns a status other than 0. The process exits with status 0, not 1.
\<close>

theorem single_failure_in_middle_file_gives_zero:
  "fst (main (example_env (\<lambda>n cmd. if n = 3 then 2 else 0))
         \<lparr>listpep = False, pepkeylist = False, paths = [''a.py'', ''b.py'', ''c.py'']\<rparr>
         initial_state) = Exit 0
   \<and> length (calls (snd (main (example_env (\<lambda>n cmd. if n = 3 then 2 else 0))
         \<lparr>listpep = False, pepkeylist = False, paths = [''a.py'', ''b.py'', ''c.py'']\<rparr>
         initial_state))) = 6
   \<and> [n \<leftarrow> [0 ..< 6]. subprocess_call (example_env (\<lambda>n cmd. if n = 3 then 2 else 0)) n
         (calls (snd (main (example_env (\<lambda>n cmd. if n = 3 then 2 else 0))
         \<lparr>listpep = False, pepkeylist = False, paths = [''a.py'', ''b.py'', ''c.py'']\<rparr>
         initial_state)) ! n) \<noteq> 0] = [3]"
  by (simp add: run_defs upt_rec)

section \<open>Listing\<close>

lemma list_loop_present:
  "set ks \<subseteq> set (keys (ignore_pep st)) \<Longrightarrow>
   list_loop ks st =
     (Inr (), st\<lparr>out := out st @
        map (\<lambda>k. tab @ k @ '': '' @ the (map_of (ignore_pep st) k) @ nl @ nl) ks\<rparr>)"
proof (induction ks arbitrary: st)
  case Nil
  show ?case by simp
next
  case (Cons k ks)
  from Cons.prems have "k \<in> fst ` set (ignore_pep st)"
    by (simp add: keys_def)
  then obtain v where v: "map_of (ignore_pep st) k = Some v"
    by (metis domD dom_map_of_conv_image_fst)
  let ?st' = "py_print (tab @ k @ '': '' @ v @ nl) st"
  have reg: "ignore_pep ?st' = ignore_pep st"
    by (simp add: py_print_def stdout_write_def)
  have sub: "set ks \<subseteq> set (keys (ignore_pep ?st'))"
    using Cons.prems reg by simp
  show ?case
    using Cons.IH [OF sub] v reg
    by (simp add: dict_get_def py_print_def stdout_write_def)
qed

lemma map_of_keys_pairs:
  "distinct (map fst d) \<Longrightarrow>
   map (\<lambda>k. f k (the (map_of d k))) (map fst d) = map (\<lambda>(k, v). f k v) d"
proof (induction d)
  case Nil
  show ?case by simp
next
  case (Cons kv d)
  obtain k v where kv: "kv = (k, v)" by (cases kv)
  from Cons.prems kv have notin: "k \<notin> fst ` set d" and dist: "distinct (map fst d)"
    by simp_all
  have "map (\<lambda>k'. f k' (the (map_of (kv # d) k'))) (map fst d) =
        map (\<lambda>k'. f k' (the (map_of d k'))) (map fst d)"
    using notin kv by (auto simp: image_iff)
  then show ?case using Cons.IH [OF dist] kv by simp
qed

lemma list_pep_keys_result:
  "list_pep_keys st =
     (Inl (Exit 0),
      st\<lparr>out := out st @
        (nl @ tab @ ''These are the PEP Keys that are being ignored:'' @ nl @ nl) #
        map (\<lambda>k. tab @ k @ '': '' @ the (map_of (ignore_pep st) k) @ nl @ nl)
            (keys (ignore_pep st))\<rparr>)"
proof -
  let ?st1 = "py_print (nl @ tab @ ''These are the PEP Keys that are being ignored:'' @ nl) st"
  have reg: "ignore_pep ?st1 = ignore_pep st"
    by (simp add: py_print_def stdout_write_def)
  have "set (keys (ignore_pep ?st1)) \<subseteq> set (keys (ignore_pep ?st1))" by simp
  from list_loop_present [OF this] show ?thesis
    unfolding list_pep_keys_def Let_def
    by (simp add: reg sys_exit_def py_print_def stdout_write_def)
qed

text \<open>
  With \<^verbatim>\<open>options.listpep\<close> set, whatever the other fields are, \<^verbatim>\<open>main\<close>
  exits with status 0, runs no child process and leaves the registry as it is; what it
  writes is the header and then one line per registry entry, code and description.
\<close>

lemma main_lists_first:
  "listpep opts \<Longrightarrow>
   fst (main e opts st) = Exit 0
   \<and> calls (snd (main e opts st)) = calls st
   \<and> ignore_pep (snd (main e opts st)) = ignore_pep st
   \<and> (distinct (keys (ignore_pep st)) \<longrightarrow>
        out (snd (main e opts st)) =
          out st @
          (nl @ tab @ ''These are the PEP Keys that are being ignored:'' @ nl @ nl) #
          map (\<lambda>(k, v). tab @ k @ '': '' @ v @ nl @ nl) (ignore_pep st))"
proof -
  assume l: "listpep opts"
  have m: "main e opts st = (Exit 0, snd (list_pep_keys st))"
    using l by (simp add: main_def list_pep_keys_result)
  have pairs: "distinct (keys (ignore_pep st)) \<Longrightarrow>
      map (\<lambda>k. tab @ k @ '': '' @ the (map_of (ignore_pep st) k) @ nl @ nl) (keys (ignore_pep st)) =
      map (\<lambda>(k, v). tab @ k @ '': '' @ v @ nl @ nl) (ignore_pep st)"
    unfolding keys_def
    using map_of_keys_pairs [of "ignore_pep st" "\<lambda>k v. tab @ k @ '': '' @ v @ nl @ nl"]
    by simp
  show ?thesis
    unfolding m using pairs by (simp add: list_pep_keys_result)
qed

text \<open>
  What \<^verbatim>\<open>parse_args\<close> accepts: the state is untouched, a list option among the
  arguments sets \<^verbatim>\<open>listpep\<close>, and there is neither a help option nor an unknown
  option string. The program then is \<^verbatim>\<open>main\<close> on the options parsed.
\<close>

lemma parse_loop_state:
  "parse_loop e as ns ph ex st = (Inr opts, st') \<Longrightarrow> st' = st"
  by (induction e as ns ph ex st rule: parse_loop.induct) (auto split: if_splits)

lemma parse_loop_listpep:
  "parse_loop e as ns ph ex st = (Inr opts, st') \<Longrightarrow> listpep ns \<or> Opt_list \<in> set as \<Longrightarrow>
   listpep opts"
  by (induction e as ns ph ex st rule: parse_loop.induct) (auto split: if_splits)

lemma parse_loop_accepts:
  "parse_loop e as ns ph ex st = (Inr opts, st') \<Longrightarrow>
   Opt_help \<notin> set as \<and> (\<forall>s. Opt_unknown s \<notin> set as) \<and> ex = []"
  by (induction e as ns ph ex st rule: parse_loop.induct) (auto split: if_splits)

lemma run_accepted:
  "parse_args e argv st = (Inr opts, st') \<Longrightarrow> run e argv st = main e opts st"
proof -
  assume p: "parse_args e argv st = (Inr opts, st')"
  then have "st' = st"
    unfolding parse_args_def by (rule parse_loop_state)
  with p show ?thesis by (simp add: run_def)
qed

text \<open>
  C6 as stated fails. With the help option after the list option, the parser prints the
  help text and exits with status 0 before \<^verbatim>\<open>main\<close> looks at the options: what
  is written is the help text, which is no registry entry. With an option string the
  parser does not know, the process exits with status 2 and writes nothing to standard
  output.
\<close>

theorem list_option_with_help_or_unknown_flag:
  "run (example_env (\<lambda>n cmd. 0)) [Opt_list, Opt_help] initial_state =
     (Exit 0, initial_state\<lparr>out := [example_help]\<rparr>)
   \<and> tab @ ''E121: indentation is not a multiple of four'' @ nl @ nl \<noteq> example_help
   \<and> run (example_env (\<lambda>n cmd. 0)) [Opt_list, Opt_unknown ''--bogus''] initial_state =
     (Exit 2, initial_state)"
  by (simp add: run_def parse_args_def stdout_write_def initial_state_def example_env_def
      example_help_def tab_def nl_def)

text \<open>
  C6, amended. For every command line that contains the list option and that the parser
  accepts (it then has no help option and no unknown option string), whatever else it
  contains (the remove flag, paths), the program exits with status 0, runs no child
  process and leaves the registry as it is; what it writes is the header and then one
  line per registry entry, code and description.
\<close>

theorem list_option_lists_when_accepted:
  "parse_args e argv st = (Inr opts, st') \<Longrightarrow> Opt_list \<in> set argv \<Longrightarrow>
   fst (run e argv st) = Exit 0
   \<and> calls (snd (run e argv st)) = calls st
   \<and> ignore_pep (snd (run e argv st)) = ignore_pep st
   \<and> (distinct (keys (ignore_pep st)) \<longrightarrow>
        out (snd (run e argv st)) =
          out st @
          (nl @ tab @ ''These are the PEP Keys that are being ignored:'' @ nl @ nl) #
          map (\<lambda>(k, v). tab @ k @ '': '' @ v @ nl @ nl) (ignore_pep st))
   \<and> Opt_help \<notin> set argv \<and> (\<forall>s. Opt_unknown s \<notin> set argv)"
proof -
  assume p: "parse_args e argv st = (Inr opts, st')" and l: "Opt_list \<in> set argv"
  have lp: "listpep opts"
    using p l parse_loop_listpep [of e argv _ Before "[]" st opts st']
    by (simp add: parse_args_def)
  have acc: "Opt_help \<notin> set argv \<and> (\<forall>s. Opt_unknown s \<notin> set argv)"
    using p parse_loop_accepts [of e argv _ Before "[]" st opts st']
    by (simp add: parse_args_def)
  show ?thesis
    using main_lists_first [OF lp, of e st] run_accepted [OF p] acc by simp
qed

text \<open>
  The list option together with the remove flag and a path: ten entries and the header
  are written, nothing is run, nothing is removed.
\<close>

theorem list_option_lists_when_accepted_witness:
  "fst (run (example_env (\<lambda>n cmd. 1)) [Opt_list, Opt_remove, Positional ''a.py''] initial_state) = Exit 0
   \<and> calls (snd (run (example_env (\<lambda>n cmd. 1)) [Opt_list, Opt_remove, Positional ''a.py'']
        initial_state)) = []
   \<and> ignore_pep (snd (run (example_env (\<lambda>n cmd. 1)) [Opt_list, Opt_remove, Positional ''a.py'']
        initial_state)) = IGNORE_PEP
   \<and> length (out (snd (run (example_env (\<lambda>n cmd. 1)) [Opt_list, Opt_remove, Positional ''a.py'']
        initial_state))) = 11"
proof -
  let ?e = "example_env (\<lambda>n cmd. 1)"
  let ?argv = "[Opt_list, Opt_remove, Positional ''a.py'']"
  have p: "parse_args ?e ?argv initial_state =
      (Inr \<lparr>listpep = True, pepkeylist = True, paths = [''a.py'']\<rparr>, initial_state)"
    by (simp add: parse_args_def)
  have l: "Opt_list \<in> set ?argv" by simp
  have d: "distinct (keys (ignore_pep initial_state))"
    by (simp add: initial_state_def IGNORE_PEP_def keys_def)
  show ?thesis
    using list_option_lists_when_accepted [OF p l] d
    by (simp add: initial_state_def IGNORE_PEP_def)
qed

section \<open>Removal\<close>

lemma remove_keys_bool:
  "remove_keys (PyBool b) st = (if b then (Inl (Uncaught AttributeError), st) else (Inr (), st))"
  by (simp add: remove_keys_def)

text \<open>
  C4, at its failing inputs. The remove flag stores \<^verbatim>\<open>True\<close>, so every run with
  the remove flag and without the list option ends in an \<^verbatim>\<open>AttributeError\<close> that
  nobody catches, raised by \<^verbatim>\<open>keystr.split(',')\<close>, before anything is written.
\<close>

theorem remove_flag_raises:
  "\<not> listpep opts \<Longrightarrow> pepkeylist opts \<Longrightarrow> main e opts st = (Uncaught AttributeError, st)"
  by (simp add: main_def remove_keys_bool)

text \<open>
  The command line \<^verbatim>\<open>-r E127,E501\<close>: the key list arrives as a path.
\<close>

theorem remove_flag_raises_witness:
  "main (example_env (\<lambda>n cmd. 0))
     \<lparr>listpep = False, pepkeylist = True, paths = [''E127,E501'']\<rparr> initial_state =
     (Uncaught AttributeError, initial_state)"
  using remove_flag_raises
          [of "\<lparr>listpep = False, pepkeylist = True, paths = [''E127,E501'']\<rparr>"
              "example_env (\<lambda>n cmd. 0)" initial_state]
  by simp

text \<open>
  C3, at a failing input. The command line \<^verbatim>\<open>-r Z999\<close> ends in the uncaught
  \<^verbatim>\<open>AttributeError\<close> with nothing written, so no key list is printed. And if the
  removal step is given the string \<^verbatim>\<open>Z999\<close> itself, the process ends inside
  \<^verbatim>\<open>list_pep_keys\<close> with status 0: the \<^verbatim>\<open>sys.exit(1)\<close> after it is never
  reached.
\<close>

theorem unknown_code_never_reported:
  "main (example_env (\<lambda>n cmd. 0))
     \<lparr>listpep = False, pepkeylist = True, paths = [''Z999'']\<rparr> initial_state =
     (Uncaught AttributeError, initial_state)
   \<and> fst (remove_keys (PyStr ''Z999'') initial_state) = Inl (Exit 0)"
  by (simp add: run_defs)

text \<open>
  C5 as stated fails: the registry does not start with 11 entries, and the removal of
  E501 and W391 does not leave 9.
\<close>

theorem registry_size_counterexample:
  "length IGNORE_PEP \<noteq> 11
   \<and> length (ignore_pep (snd (remove_keys (PyStr ''E501,W391'') initial_state))) \<noteq> 9"
  by (simp add: run_defs)

lemma dict_pop_present:
  "distinct (keys d) \<Longrightarrow> k \<in> set (keys d) \<Longrightarrow>
   \<exists>d'. dict_pop d k = Inr d' \<and> length d' + 1 = length d \<and> keys d' = remove1 k (keys d)"
proof (induction d)
  case Nil
  then show ?case by (simp add: keys_def)
next
  case (Cons kv d)
  obtain k' v' where kv: "kv = (k', v')" by (cases kv)
  show ?case
  proof (cases "k' = k")
    case True
    with Cons.prems kv have "k \<notin> fst ` set d" by (simp add: keys_def)
    then have "filter (\<lambda>kv. fst kv \<noteq> k) d = d"
      by (auto simp: filter_id_conv)
    then show ?thesis using True kv by (simp add: dict_pop_def keys_def)
  next
    case False
    with Cons.prems kv have d: "distinct (keys d)" and m: "k \<in> set (keys d)"
      by (auto simp: keys_def)
    from Cons.IH [OF d m] obtain d' where
      d': "dict_pop d k = Inr d'" "length d' + 1 = length d" "keys d' = remove1 k (keys d)"
      by blast
    from d'(1) have f: "d' = filter (\<lambda>kv. fst kv \<noteq> k) d"
      by (auto simp: dict_pop_def split: option.splits)
    from d'(1) obtain v where "map_of d k = Some v"
      by (auto simp: dict_pop_def split: option.splits)
    then show ?thesis using False kv d'(2,3) f
      by (simp add: dict_pop_def keys_def)
  qed
qed

text \<open>
  C5, amended. The registry starts with 10 entries, with keys from E121 to W391. The
  removal step, given the key string \<^verbatim>\<open>E501,W391\<close>, raises no error and leaves a
  registry of exactly 8 entries. Removing one present code from a registry makes it
  exactly one entry shorter and takes only that key away.
\<close>

theorem registry_sizes:
  "length IGNORE_PEP = 10
   \<and> keys IGNORE_PEP =
       [''E121'', ''E122'', ''E123'', ''E125'', ''E126'', ''E127'', ''E128'', ''E302'', ''E501'', ''W391'']
   \<and> fst (remove_keys (PyStr ''E501,W391'') initial_state) = Inr ()
   \<and> keys (ignore_pep (snd (remove_keys (PyStr ''E501,W391'') initial_state))) =
       [''E121'', ''E122'', ''E123'', ''E125'', ''E126'', ''E127'', ''E128'', ''E302'']
   \<and> length (ignore_pep (snd (remove_keys (PyStr ''E501,W391'') initial_state))) = 8
   \<and> (distinct (keys d) \<and> k \<in> set (keys d) \<longrightarrow>
        (\<exists>d'. dict_pop d k = Inr d' \<and> length d' + 1 = length d \<and> keys d' = remove1 k (keys d)))"
proof -
  have "length IGNORE_PEP = 10" by (simp add: IGNORE_PEP_def)
  moreover have "keys IGNORE_PEP =
       [''E121'', ''E122'', ''E123'', ''E125'', ''E126'', ''E127'', ''E128'', ''E302'', ''E501'', ''W391'']"
    by (simp add: IGNORE_PEP_def keys_def)
  moreover have "fst (remove_keys (PyStr ''E501,W391'') initial_state) = Inr ()"
    by (simp add: run_defs)
  moreover have "keys (ignore_pep (snd (remove_keys (PyStr ''E501,W391'') initial_state))) =
       [''E121'', ''E122'', ''E123'', ''E125'', ''E126'', ''E127'', ''E128'', ''E302'']"
    by (simp add: run_defs)
  moreover have "length (ignore_pep (snd (remove_keys (PyStr ''E501,W391'') initial_state))) = 8"
    by (simp add: run_defs)
  ultimately show ?thesis using dict_pop_present by blast
qed

text \<open>
  Removing E501 from the initial registry leaves nine entries.
\<close>

theorem registry_sizes_witness:
  "\<exists>d'. dict_pop IGNORE_PEP ''E501'' = Inr d' \<and> length d' = 9"
proof -
  have h: "distinct (keys IGNORE_PEP) \<and> ''E501'' \<in> set (keys IGNORE_PEP)"
    by (simp add: IGNORE_PEP_def keys_def)
  from registry_sizes [of IGNORE_PEP "''E501''"] h
  obtain d' where "dict_pop IGNORE_PEP ''E501'' = Inr d'" "length d' + 1 = length IGNORE_PEP"
    by blast
  moreover have "length IGNORE_PEP = 10" by (simp add: IGNORE_PEP_def)
  ultimately show ?thesis by auto
qed

section \<open>The sanity check\<close>

text \<open>
  C7 as stated fails. With neither executable found, a run with the list option exits
  with status 0 and does not print the installation guidance; a run with the help option
  prints the help text and exits with status 0.
\<close>

theorem list_option_skips_sanity_check:
  "fst (run ((example_env (\<lambda>n cmd. 0))\<lparr>find_executable := (\<lambda>x. None)\<rparr>) [Opt_list] initial_state) = Exit 0
   \<and> IMPORT_ERROR_MSG ((example_env (\<lambda>n cmd. 0))\<lparr>find_executable := (\<lambda>x. None)\<rparr>) @ nl
       \<notin> set (out (snd (run ((example_env (\<lambda>n cmd. 0))\<lparr>find_executable := (\<lambda>x. None)\<rparr>) [Opt_list]
                initial_state)))
   \<and> fst (run ((example_env (\<lambda>n cmd. 0))\<lparr>find_executable := (\<lambda>x. None)\<rparr>) [Opt_help] initial_state) = Exit 0
   \<and> out (snd (run ((example_env (\<lambda>n cmd. 0))\<lparr>find_executable := (\<lambda>x. None)\<rparr>) [Opt_help]
                initial_state)) = [example_help]"
  by (simp add: run_def parse_args_def run_defs IMPORT_ERROR_MSG_def nl_def tab_def)

text \<open>
  C7, amended. If either executable is not found, \<^verbatim>\<open>check_sanity\<close> writes the
  installation guidance and exits with status 1; if both are found, it changes nothing.
  A run without the list option reaches it once the removal step is over, in a state
  \<open>st2\<close>: with an executable missing the run then ends with the guidance and status
  1, no child process run; with both found the run is that of the check operation on
  the given paths, whose result is the exit status. So it is from the command line on,
  when the parser accepts it.
\<close>

theorem sanity_check_when_reached:
  "(find_executable e (PYLINT e) = None \<or> find_executable e ''pycodestyle'' = None \<longrightarrow>
      check_sanity e st2 = (Inl (Exit 1), st2\<lparr>out := out st2 @ [IMPORT_ERROR_MSG e @ nl]\<rparr>)
      \<and> (\<not> listpep opts \<and> remove_keys (PyBool (pepkeylist opts)) st = (Inr (), st2) \<longrightarrow>
           main e opts st = (Exit 1, st2\<lparr>out := out st2 @ [IMPORT_ERROR_MSG e @ nl]\<rparr>)
           \<and> (parse_args e argv st = (Inr opts, st) \<longrightarrow>
                run e argv st = (Exit 1, st2\<lparr>out := out st2 @ [IMPORT_ERROR_MSG e @ nl]\<rparr>))))
   \<and> (find_executable e (PYLINT e) \<noteq> None \<and> find_executable e ''pycodestyle'' \<noteq> None \<longrightarrow>
      check_sanity e st2 = (Inr (), st2)
      \<and> (\<not> listpep opts \<and> remove_keys (PyBool (pepkeylist opts)) st = (Inr (), st2) \<longrightarrow>
           main e opts st =
             (Exit (fst (check e (if paths opts = [] then None else Some (paths opts)) st2)),
              snd (check e (if paths opts = [] then None else Some (paths opts)) st2))
           \<and> (parse_args e argv st = (Inr opts, st) \<longrightarrow>
                run e argv st =
                  (Exit (fst (check e (if paths opts = [] then None else Some (paths opts)) st2)),
                   snd (check e (if paths opts = [] then None else Some (paths opts)) st2)))))"
proof -
  have r: "parse_args e argv st = (Inr opts, st) \<Longrightarrow> run e argv st = main e opts st"
    by (rule run_accepted)
  have m1: "find_executable e (PYLINT e) = None \<or> find_executable e ''pycodestyle'' = None \<Longrightarrow>
      check_sanity e st2 = (Inl (Exit 1), st2\<lparr>out := out st2 @ [IMPORT_ERROR_MSG e @ nl]\<rparr>)"
    by (auto simp: check_sanity_def sys_exit_def py_print_def stdout_write_def)
  have m2: "find_executable e (PYLINT e) \<noteq> None \<and> find_executable e ''pycodestyle'' \<noteq> None \<Longrightarrow>
      check_sanity e st2 = (Inr (), st2)"
    by (auto simp: check_sanity_def)
  have a: "\<not> listpep opts \<Longrightarrow> remove_keys (PyBool (pepkeylist opts)) st = (Inr (), st2) \<Longrightarrow>
      main e opts st =
        (case check_sanity e st2 of
           (Inl oc, st3) \<Rightarrow> (oc, st3)
         | (Inr u, st3) \<Rightarrow>
             (Exit (fst (check e (if paths opts = [] then None else Some (paths opts)) st3)),
              snd (check e (if paths opts = [] then None else Some (paths opts)) st3)))"
    by (auto simp: main_def split: prod.splits sum.splits)
  show ?thesis
    using r m1 m2 a by (auto simp: )
qed

text \<open>
  With \<^verbatim>\<open>pycodestyle\<close> missing the run on one path ends with the guidance and
  status 1; with both tools installed it is the check of that file.
\<close>

theorem sanity_check_when_reached_witness:
  "run ((example_env (\<lambda>n cmd. 0))\<lparr>find_executable := (\<lambda>x. if x = ''pylint3'' then Some ''/usr/bin/pylint3'' else None)\<rparr>)
        [Positional ''a.py''] initial_state =
     (Exit 1,
      initial_state\<lparr>out := [IMPORT_ERROR_MSG (example_env (\<lambda>n cmd. 0)) @ nl]\<rparr>)
   \<and> fst (run (example_env (\<lambda>n cmd. 0)) [Positional ''a.py''] initial_state) = Exit 0
   \<and> calls (snd (run (example_env (\<lambda>n cmd. 0)) [Positional ''a.py''] initial_state)) =
       calls (snd (check (example_env (\<lambda>n cmd. 0)) (Some [''a.py'']) initial_state))"
proof -
  let ?missing = "(example_env (\<lambda>n cmd. 0))\<lparr>find_executable := (\<lambda>x. if x = ''pylint3'' then Some ''/usr/bin/pylint3'' else None)\<rparr>"
  let ?opts = "\<lparr>listpep = False, pepkeylist = False, paths = [''a.py'']\<rparr>"
  let ?argv = "[Positional ''a.py'']"
  have m: "find_executable ?missing (PYLINT ?missing) = None \<or> find_executable ?missing ''pycodestyle'' = None"
    by (simp add: example_env_def)
  have f: "find_executable (example_env (\<lambda>n cmd. 0)) (PYLINT (example_env (\<lambda>n cmd. 0))) \<noteq> None
      \<and> find_executable (example_env (\<lambda>n cmd. 0)) ''pycodestyle'' \<noteq> None"
    by (simp add: example_env_def)
  have o: "\<not> listpep ?opts \<and> remove_keys (PyBool (pepkeylist ?opts)) initial_state = (Inr (), initial_state)"
    by (simp add: remove_keys_def)
  have p1: "parse_args ?missing ?argv initial_state = (Inr ?opts, initial_state)"
    by (simp add: parse_args_def)
  have p2: "parse_args (example_env (\<lambda>n cmd. 0)) ?argv initial_state = (Inr ?opts, initial_state)"
    by (simp add: parse_args_def)
  have msg: "IMPORT_ERROR_MSG ?missing = IMPORT_ERROR_MSG (example_env (\<lambda>n cmd. 0))"
    by (simp add: IMPORT_ERROR_MSG_def example_env_def)
  have 1: "run ?missing ?argv initial_state =
      (Exit 1, initial_state\<lparr>out := [IMPORT_ERROR_MSG (example_env (\<lambda>n cmd. 0)) @ nl]\<rparr>)"
    using sanity_check_when_reached [of ?missing initial_state ?opts initial_state ?argv] m o p1 msg
    by (simp add: initial_state_def)
  have 2: "run (example_env (\<lambda>n cmd. 0)) ?argv initial_state =
      (Exit (fst (check (example_env (\<lambda>n cmd. 0)) (Some [''a.py'']) initial_state)),
       snd (check (example_env (\<lambda>n cmd. 0)) (Some [''a.py'']) initial_state))"
    using sanity_check_when_reached
            [of "example_env (\<lambda>n cmd. 0)" initial_state ?opts initial_state ?argv] f o p2
    by simp
  have 3: "fst (check (example_env (\<lambda>n cmd. 0)) (Some [''a.py'']) initial_state) = 0"
    by (simp add: run_defs)
  show ?thesis using 1 2 3 by simp
qed

end
